theory Spec2Isabelle
  imports Main "HOL-Library.Sublist"
begin

section \<open>Text cells: \<open>standardize_name\<close>, \<open>standardize_city\<close>, \<open>standardize_product\<close>\<close>

text \<open>
  A text cell of the data frame is either missing (\<open>NaN\<close>, here \<open>None\<close>) or a Python
  \<open>str\<close>. Strings are modelled over ASCII: a \<open>char\<close> stands for the code point of the
  same number, and the character classes below are those of Python on code points
  below 128. Code points from 128 on are outside the model.
\<close>

text \<open>
  \<open>str.isspace\<close> on one character, which is also the class \<open>\s\<close> of a \<open>str\<close> pattern and
  the set removed by \<open>str.strip()\<close>: tab, line feed, vertical tab, form feed, carriage
  return, the four separators 28 to 31, and the space.
\<close>

definition isspace :: "char \<Rightarrow> bool" where
  "isspace c = (let n = (of_char c :: nat) in (9 \<le> n \<and> n \<le> 13) \<or> (28 \<le> n \<and> n \<le> 32))"

definition isupper :: "char \<Rightarrow> bool" where
  "isupper c = (let n = (of_char c :: nat) in 65 \<le> n \<and> n \<le> 90)"

definition islower :: "char \<Rightarrow> bool" where
  "islower c = (let n = (of_char c :: nat) in 97 \<le> n \<and> n \<le> 122)"

text \<open>A cased character: over ASCII, a letter.\<close>

definition iscased :: "char \<Rightarrow> bool" where
  "iscased c = (isupper c \<or> islower c)"

definition to_lower :: "char \<Rightarrow> char" where
  "to_lower c = (if isupper c then char_of (of_char c + (32::nat)) else c)"

definition to_upper :: "char \<Rightarrow> char" where
  "to_upper c = (if islower c then char_of (of_char c - (32::nat)) else c)"

text \<open>\<open>s.strip()\<close>: whitespace removed at both ends.\<close>

definition strip :: "string \<Rightarrow> string" where
  "strip s = rev (dropWhile isspace (rev (dropWhile isspace s)))"

text \<open>
  \<open>re.sub(r"\s+", " ", s)\<close>: scanning from the left, every maximal run of whitespace is
  replaced by one space; every other character is copied.
\<close>

function re_sub_ws :: "string \<Rightarrow> string" where
  "re_sub_ws [] = []"
| "re_sub_ws (c # cs) =
     (if isspace c then CHR '' '' # re_sub_ws (dropWhile isspace cs) else c # re_sub_ws cs)"
  by pat_completeness auto
termination
  by (relation "measure length") (auto simp: length_dropWhile_le less_Suc_eq_le)

text \<open>
  \<open>s.title()\<close>: one pass that remembers whether the previous character was cased. After
  a cased character the next one is lowercased, otherwise it is titlecased (over ASCII:
  uppercased); characters that are not letters are left as they are by both.
\<close>

fun title_from :: "bool \<Rightarrow> string \<Rightarrow> string" where
  "title_from previous_is_cased [] = []"
| "title_from previous_is_cased (c # cs) =
     (if previous_is_cased then to_lower c else to_upper c) # title_from (iscased c) cs"

definition title :: "string \<Rightarrow> string" where
  "title s = title_from False s"

text \<open>
  The three normalizers of the source have the same body: a missing value is returned
  as missing; otherwise strip, collapse whitespace, title-case. (\<open>str(x)\<close> of a \<open>str\<close>
  is the string itself.)
\<close>

definition standardize_city :: "string option \<Rightarrow> string option" where
  "standardize_city city =
     (case city of None \<Rightarrow> None
      | Some x \<Rightarrow> (let s = strip x; s = re_sub_ws s in Some (title s)))"

definition standardize_name :: "string option \<Rightarrow> string option" where
  "standardize_name name =
     (case name of None \<Rightarrow> None
      | Some x \<Rightarrow> (let s = strip x; s = re_sub_ws s in Some (title s)))"

definition standardize_product :: "string option \<Rightarrow> string option" where
  "standardize_product product =
     (case product of None \<Rightarrow> None
      | Some x \<Rightarrow> (let s = strip x; s = re_sub_ws s in Some (title s)))"

subsection \<open>The normalizer as the specification words it\<close>





section \<open>The data frame and the pipeline of \<open>main\<close>\<close>

text \<open>
  A data frame is the list of its rows, in index order. A row has the seven columns of
  the input file. A cell read from the file is \<open>None\<close> when it is missing (\<open>NaN\<close>) and
  \<open>Some\<close> of its text otherwise. The \<open>price\<close>, \<open>quantity\<close> and \<open>order_date\<close> columns change
  their type during the run, so their types are parameters of the row.
\<close>

record ('p, 'q, 'd) row =
  order_id :: "string option"
  customer_name :: "string option"
  city :: "string option"
  product :: "string option"
  price :: 'p
  quantity :: 'q
  order_date :: 'd

type_synonym raw_row = "(string option, string option, string option) row"

text \<open>The frame after step 4 has the column \<open>quantity_was_missing\<close>, after step 8 \<open>revenue\<close>.\<close>

record ('p, 'q, 'd) flagged_row = "('p, 'q, 'd) row" +
  quantity_was_missing :: bool

record ('p, 'q, 'd) clean_row = "('p, 'q, 'd) flagged_row" +
  revenue :: 'p

text \<open>
  What the run takes from pandas and from float arithmetic, as parameters: \<open>'n\<close> is the
  type of the float values other than \<open>NaN\<close>, \<open>'d\<close> the type of the timestamps other than
  \<open>NaT\<close>.
  \<^item> \<open>to_numeric\<close>: \<open>pd.to_numeric(_, errors="coerce")\<close> on the text of one cell; \<open>None\<close>
    is \<open>NaN\<close>, the result for text that is not a number.
  \<^item> \<open>to_datetime\<close>: \<open>pd.to_datetime(_, errors="coerce", dayfirst=True)\<close> on the text of
    one cell; \<open>None\<close> is \<open>NaT\<close>.
  \<^item> \<open>float_one\<close>: the value \<open>1\<close> that \<open>fillna(1)\<close> stores.
  \<^item> \<open>float_mul\<close>: the product of two floats that are not \<open>NaN\<close>; \<open>None\<close> is a \<open>NaN\<close>
    product.
\<close>

record ('n, 'd) pandas =
  to_numeric :: "string \<Rightarrow> 'n option"
  to_datetime :: "string \<Rightarrow> 'd option"
  float_one :: 'n
  float_mul :: "'n \<Rightarrow> 'n \<Rightarrow> 'n option"

type_synonym ('n, 'd) typed_row = "('n option, 'n option, 'd option) row"
type_synonym ('n, 'd) flagged = "('n option, 'n option, 'd option) flagged_row"
type_synonym ('n, 'd) clean = "('n option, 'n option, 'd option) clean_row"

text \<open>Step 1: the three text columns, each through its normalizer.\<close>

definition standardize_text :: "raw_row list \<Rightarrow> raw_row list" where
  "standardize_text df =
     map (\<lambda>r. r\<lparr>customer_name := standardize_name (customer_name r),
                city := standardize_city (city r),
                product := standardize_product (product r)\<rparr>) df"

text \<open>Steps 2 and 3: a missing cell stays missing, a text cell is parsed or becomes missing.\<close>

definition coerce_cell :: "(string \<Rightarrow> 'a option) \<Rightarrow> string option \<Rightarrow> 'a option" where
  "coerce_cell parse c = (case c of None \<Rightarrow> None | Some s \<Rightarrow> parse s)"

definition coerce_types :: "('n, 'd) pandas \<Rightarrow> raw_row list \<Rightarrow> ('n, 'd) typed_row list" where
  "coerce_types L df =
     map (\<lambda>r. \<lparr>order_id = order_id r, customer_name = customer_name r, city = city r,
                product = product r,
                price = coerce_cell (to_numeric L) (price r),
                quantity = coerce_cell (to_numeric L) (quantity r),
                order_date = coerce_cell (to_datetime L) (order_date r)\<rparr>) df"

text \<open>Step 4: \<open>quantity_was_missing = quantity.isna()\<close>, then \<open>quantity = quantity.fillna(1)\<close>.\<close>

definition isna :: "'a option \<Rightarrow> bool" where
  "isna c = (c = None)"

definition fillna :: "'a \<Rightarrow> 'a option \<Rightarrow> 'a option" where
  "fillna v c = (case c of None \<Rightarrow> Some v | Some x \<Rightarrow> Some x)"

definition handle_missing :: "('n, 'd) pandas \<Rightarrow> ('n, 'd) typed_row list \<Rightarrow> ('n, 'd) flagged list" where
  "handle_missing L df =
     map (\<lambda>r. \<lparr>order_id = order_id r, customer_name = customer_name r, city = city r,
                product = product r, price = price r,
                quantity = fillna (float_one L) (quantity r),
                order_date = order_date r,
                quantity_was_missing = isna (quantity r)\<rparr>) df"

text \<open>
  Step 5: \<open>df.drop_duplicates()\<close> keeps a row unless an equal row stands before it in the
  frame; missing cells of one column are equal to each other, as \<open>None = None\<close> is.
\<close>

fun drop_duplicates_from :: "'a list \<Rightarrow> 'a list \<Rightarrow> 'a list" where
  "drop_duplicates_from seen [] = []"
| "drop_duplicates_from seen (r # rs) =
     (if r \<in> set seen then drop_duplicates_from seen rs
      else r # drop_duplicates_from (r # seen) rs)"

definition drop_duplicates :: "'a list \<Rightarrow> 'a list" where
  "drop_duplicates df = drop_duplicates_from [] df"

text \<open>Step 7: \<open>df.dropna(subset=["price", "quantity", "order_date"])\<close>.\<close>

definition dropna :: "('n, 'd) flagged list \<Rightarrow> ('n, 'd) flagged list" where
  "dropna df = filter (\<lambda>r. \<not> isna (price r) \<and> \<not> isna (quantity r) \<and> \<not> isna (order_date r)) df"

text \<open>Step 8: \<open>revenue = price * quantity\<close>; a product with a missing factor is missing.\<close>

definition times_col :: "('n, 'd) pandas \<Rightarrow> 'n option \<Rightarrow> 'n option \<Rightarrow> 'n option" where
  "times_col L a b =
     (case a of None \<Rightarrow> None
      | Some x \<Rightarrow> (case b of None \<Rightarrow> None | Some y \<Rightarrow> float_mul L x y))"

definition with_revenue :: "('n, 'd) pandas \<Rightarrow> ('n, 'd) flagged \<Rightarrow> ('n, 'd) clean" where
  "with_revenue L r =
     \<lparr>order_id = order_id r, customer_name = customer_name r, city = city r,
      product = product r, price = price r, quantity = quantity r,
      order_date = order_date r, quantity_was_missing = quantity_was_missing r,
      revenue = times_col L (price r) (quantity r)\<rparr>"

definition derive_revenue :: "('n, 'd) pandas \<Rightarrow> ('n, 'd) flagged list \<Rightarrow> ('n, 'd) clean list" where
  "derive_revenue L df = map (with_revenue L) df"

text \<open>
  The frame at the points of \<open>main\<close> the properties speak about: after step 4, after
  step 5, and the frame that is exported. Steps 6 and 9 and the printed summaries do
  not change the rows.
\<close>

definition prepared :: "('n, 'd) pandas \<Rightarrow> raw_row list \<Rightarrow> ('n, 'd) flagged list" where
  "prepared L df = handle_missing L (coerce_types L (standardize_text df))"

definition deduplicated :: "('n, 'd) pandas \<Rightarrow> raw_row list \<Rightarrow> ('n, 'd) flagged list" where
  "deduplicated L df = drop_duplicates (prepared L df)"

definition clean_frame :: "('n, 'd) pandas \<Rightarrow> raw_row list \<Rightarrow> ('n, 'd) clean list" where
  "clean_frame L df = derive_revenue L (dropna (deduplicated L df))"

subsection \<open>The run: files in, file out\<close>

text \<open>
  The part of the file system \<open>main\<close> touches: the project root, the input file
  \<open>data/raw_sales_data.csv\<close> (\<open>None\<close> when it does not exist, otherwise the frame
  \<open>pd.read_csv\<close> returns for it), what stands at the path \<open>cleaned\<close>, and the output
  file \<open>cleaned/clean_sales_data.csv\<close> (\<open>None\<close> when it does not exist, otherwise the
  frame written to it). A file that cannot be parsed as CSV or that lacks a column, and
  a failing write, are not modelled.
\<close>

datatype error = FileExistsError string | FileNotFoundError string

datatype node = Absent | Directory | RegularFile

record ('n, 'd) world =
  root :: string
  in_file :: "raw_row list option"
  out_dir :: node
  out_file :: "('n, 'd) clean list option"

text \<open>
  \<open>out_dir.mkdir(parents=True, exist_ok=True)\<close>: creates the directory, accepts one that
  exists, and raises \<open>FileExistsError\<close> when the path is taken by something else.
\<close>

definition mkdir :: "string \<Rightarrow> node \<Rightarrow> error + node" where
  "mkdir path n =
     (case n of Absent \<Rightarrow> Inr Directory
      | Directory \<Rightarrow> Inr Directory
      | RegularFile \<Rightarrow> Inl (FileExistsError path))"

definition main :: "('n, 'd) pandas \<Rightarrow> ('n, 'd) world \<Rightarrow> ('n, 'd) world \<times> (error + unit)" where
  "main L w =
     (let in_path = root w @ ''/data/raw_sales_data.csv'';
          out_dir_path = root w @ ''/cleaned''
      in case mkdir out_dir_path (out_dir w) of
           Inl e \<Rightarrow> (w, Inl e)
         | Inr d \<Rightarrow>
             (let w1 = w\<lparr>out_dir := d\<rparr>
              in case in_file w1 of
                   None \<Rightarrow> (w1, Inl (FileNotFoundError (''Input file not found: '' @ in_path)))
                 | Some df \<Rightarrow> (w1\<lparr>out_file := Some (clean_frame L df)\<rparr>, Inr ())))"

subsection \<open>Running the cleaner on its own output\<close>


subsection \<open>A small instance of the library parameters\<close>

text \<open>
  To run the model on concrete frames: numbers are naturals written in decimal digits,
  dates are triples (year, month, day) read from \<open>DD-MM-YYYY\<close> (day first) or from
  \<open>YYYY-MM-DD\<close>. It stands for pandas in the examples only; no general statement
  below depends on it.
\<close>

definition digit :: "char \<Rightarrow> nat option" where
  "digit c = (let n = (of_char c :: nat) in if 48 \<le> n \<and> n \<le> 57 then Some (n - 48) else None)"

fun digits_from :: "nat \<Rightarrow> string \<Rightarrow> nat option" where
  "digits_from acc [] = Some acc"
| "digits_from acc (c # cs) =
     (case digit c of None \<Rightarrow> None | Some k \<Rightarrow> digits_from (10 * acc + k) cs)"

definition sample_to_numeric :: "string \<Rightarrow> nat option" where
  "sample_to_numeric s = (if s = [] then None else digits_from 0 s)"

definition sample_date :: "string \<Rightarrow> string \<Rightarrow> string \<Rightarrow> (nat \<times> nat \<times> nat) option" where
  "sample_date y m d =
     (case (digits_from 0 y, digits_from 0 m, digits_from 0 d) of
        (Some yy, Some mm, Some dd) \<Rightarrow>
          if 1 \<le> mm \<and> mm \<le> 12 \<and> 1 \<le> dd \<and> dd \<le> 31 then Some (yy, mm, dd) else None
      | _ \<Rightarrow> None)"

fun sample_to_datetime :: "string \<Rightarrow> (nat \<times> nat \<times> nat) option" where
  "sample_to_datetime [d1, d2, s1, m1, m2, s2, y1, y2, y3, y4] =
     (if s1 = CHR ''-'' \<and> s2 = CHR ''-'' then sample_date [y1, y2, y3, y4] [m1, m2] [d1, d2]
      else if m2 = CHR ''-'' \<and> y2 = CHR ''-'' then sample_date [d1, d2, s1, m1] [s2, y1] [y3, y4]
      else None)"
| "sample_to_datetime s = None"

definition sample_pandas :: "(nat, nat \<times> nat \<times> nat) pandas" where
  "sample_pandas =
     \<lparr>to_numeric = sample_to_numeric, to_datetime = sample_to_datetime,
      float_one = 1, float_mul = (\<lambda>a b. Some (a * b))\<rparr>"




definition raw :: "string \<Rightarrow> string \<Rightarrow> string \<Rightarrow> string \<Rightarrow> string \<Rightarrow> string \<Rightarrow> string \<Rightarrow> raw_row" where
  "raw i n c p pr q d =
     (let cell = (\<lambda>s. if s = [] then None else Some s)
      in \<lparr>order_id = cell i, customer_name = cell n, city = cell c, product = cell p,
          price = cell pr, quantity = cell q, order_date = cell d\<rparr>)"

text \<open>Frames for the examples: \<open>raw\<close> builds a row from the text of its cells, empty for missing.\<close>

definition orders :: "raw_row list" where
  "orders =
     [raw ''1'' '' john smith '' ''PARIS'' ''widget'' ''9'' ''2'' ''03-06-2023'',
      raw ''2'' ''Jane Doe'' ''London'' ''Gadget'' ''5'' [] ''14-06-2023'',
      raw ''3'' ''Bob'' ''NYC'' ''Thing'' [] ''3'' ''01-01-2023'',
      raw ''1'' ''john  smith'' ''Paris'' ''Widget'' ''09'' ''2'' ''2023-06-03'']"

definition jane_twice :: "raw_row list" where
  "jane_twice =
     [raw ''2'' ''Jane Doe'' ''London'' ''Gadget'' ''5'' [] ''14-06-2023'',
      raw ''2'' ''Jane Doe'' ''London'' ''Gadget'' ''5'' ''1'' ''14-06-2023'']"


definition no_input :: "(nat, nat \<times> nat \<times> nat) world" where
  "no_input = \<lparr>root = ''/repo'', in_file = None, out_dir = Absent, out_file = None\<rparr>"

section \<open>Text normalization: lemmas\<close>































section \<open>Deduplication and the pipeline: lemmas\<close>

lemma set_drop_duplicates_from: "set (drop_duplicates_from seen xs) = set xs - set seen"
  by (induction xs arbitrary: seen) auto

lemma distinct_drop_duplicates_from: "distinct (drop_duplicates_from seen xs)"
  by (induction xs arbitrary: seen) (auto simp: set_drop_duplicates_from)

lemma subseq_drop_duplicates_from: "subseq (drop_duplicates_from seen xs) xs"
  by (induction xs arbitrary: seen) auto

lemma drop_duplicates_from_nths:
  "drop_duplicates_from seen xs =
     nths xs {i. i < length xs \<and> xs ! i \<notin> set seen \<union> set (take i xs)}"
proof (induction xs arbitrary: seen)
  case Nil
  show ?case by simp
next
  case (Cons r rs)
  let ?A = "{i. i < length (r # rs) \<and> (r # rs) ! i \<notin> set seen \<union> set (take i (r # rs))}"
  have tail: "{j. Suc j \<in> ?A} = {j. j < length rs \<and> rs ! j \<notin> set (r # seen) \<union> set (take j rs)}"
    by auto
  have head: "0 \<in> ?A \<longleftrightarrow> r \<notin> set seen" by simp
  show ?case
  proof (cases "r \<in> set seen")
    case True
    then have "{j. Suc j \<in> ?A} = {j. j < length rs \<and> rs ! j \<notin> set seen \<union> set (take j rs)}"
      by auto
    with True head Cons.IH [of seen] show ?thesis
      by (simp add: nths_Cons del: Un_iff)
  next
    case False
    with head tail Cons.IH [of "r # seen"] show ?thesis
      by (simp add: nths_Cons del: Un_iff)
  qed
qed



lemma inj_with_revenue: "inj (with_revenue L)"
proof (rule injI)
  fix a b :: "('a, 'b) flagged"
  assume "with_revenue L a = with_revenue L b"
  then have "flagged_row.truncate (with_revenue L a) = flagged_row.truncate (with_revenue L b)" by simp
  then show "a = b"
    by (simp add: with_revenue_def flagged_row.truncate_def row.defs flagged_row.defs)
qed

lemma distinct_clean_frame: "distinct (clean_frame L df)"
  by (simp add: clean_frame_def derive_revenue_def dropna_def deduplicated_def drop_duplicates_def
        distinct_map distinct_drop_duplicates_from inj_on_subset [OF inj_with_revenue subset_UNIV])

lemma length_prepared: "length (prepared L df) = length df"
  by (simp add: prepared_def handle_missing_def coerce_types_def standardize_text_def)

lemma prepared_nth:
  "i < length df \<Longrightarrow>
   prepared L df ! i =
     \<lparr>order_id = order_id (df ! i),
      customer_name = standardize_name (customer_name (df ! i)),
      city = standardize_city (city (df ! i)),
      product = standardize_product (product (df ! i)),
      price = coerce_cell (to_numeric L) (price (df ! i)),
      quantity = fillna (float_one L) (coerce_cell (to_numeric L) (quantity (df ! i))),
      order_date = coerce_cell (to_datetime L) (order_date (df ! i)),
      quantity_was_missing = isna (coerce_cell (to_numeric L) (quantity (df ! i)))\<rparr>"
  by (simp add: prepared_def handle_missing_def coerce_types_def standardize_text_def)

lemma prepared_quantity:
  "r \<in> set (prepared L df) \<Longrightarrow>
   quantity r \<noteq> None \<and> (quantity_was_missing r \<longrightarrow> quantity r = Some (float_one L))"
  by (auto simp: prepared_def handle_missing_def fillna_def isna_def split: option.splits)

lemma set_deduplicated: "set (deduplicated L df) = set (prepared L df)"
  by (simp add: deduplicated_def drop_duplicates_def set_drop_duplicates_from)

lemma set_clean_frame:
  "set (clean_frame L df) =
     with_revenue L ` {r \<in> set (prepared L df). price r \<noteq> None \<and> quantity r \<noteq> None \<and> order_date r \<noteq> None}"
  by (auto simp: clean_frame_def derive_revenue_def dropna_def set_deduplicated isna_def)

lemma with_revenue_sel:
  "price (with_revenue L r) = price r" "quantity (with_revenue L r) = quantity r"
  "order_date (with_revenue L r) = order_date r"
  "quantity_was_missing (with_revenue L r) = quantity_was_missing r"
  "revenue (with_revenue L r) = times_col L (price r) (quantity r)"
  by (simp_all add: with_revenue_def)

lemma coerce_cell_None:
  "coerce_cell parse c = None \<longleftrightarrow> (c = None \<or> (\<exists>s. c = Some s \<and> parse s = None))"
  by (cases c) (simp_all add: coerce_cell_def)






section \<open>The examples, evaluated\<close>

lemma orders_deduplicated:
  "deduplicated sample_pandas orders =
     [\<lparr>order_id = Some ''1'', customer_name = Some ''John Smith'', city = Some ''Paris'',
        product = Some ''Widget'', price = Some 9, quantity = Some 2,
        order_date = Some (2023, 6, 3), quantity_was_missing = False\<rparr>,
      \<lparr>order_id = Some ''2'', customer_name = Some ''Jane Doe'', city = Some ''London'',
        product = Some ''Gadget'', price = Some 5, quantity = Some 1,
        order_date = Some (2023, 6, 14), quantity_was_missing = True\<rparr>,
      \<lparr>order_id = Some ''3'', customer_name = Some ''Bob'', city = Some ''Nyc'',
        product = Some ''Thing'', price = None, quantity = Some 3,
        order_date = Some (2023, 1, 1), quantity_was_missing = False\<rparr>]"
  by code_simp

lemma orders_clean:
  "clean_frame sample_pandas orders =
     [\<lparr>order_id = Some ''1'', customer_name = Some ''John Smith'', city = Some ''Paris'',
        product = Some ''Widget'', price = Some 9, quantity = Some 2,
        order_date = Some (2023, 6, 3), quantity_was_missing = False, revenue = Some 18\<rparr>,
      \<lparr>order_id = Some ''2'', customer_name = Some ''Jane Doe'', city = Some ''London'',
        product = Some ''Gadget'', price = Some 5, quantity = Some 1,
        order_date = Some (2023, 6, 14), quantity_was_missing = True, revenue = Some 5\<rparr>]"
  by code_simp

lemma jane_twice_prepared:
  "prepared sample_pandas jane_twice =
     [\<lparr>order_id = Some ''2'', customer_name = Some ''Jane Doe'', city = Some ''London'',
        product = Some ''Gadget'', price = Some 5, quantity = Some 1,
        order_date = Some (2023, 6, 14), quantity_was_missing = True\<rparr>,
      \<lparr>order_id = Some ''2'', customer_name = Some ''Jane Doe'', city = Some ''London'',
        product = Some ''Gadget'', price = Some 5, quantity = Some 1,
        order_date = Some (2023, 6, 14), quantity_was_missing = False\<rparr>]"
  by code_simp

lemma jane_twice_clean:
  "clean_frame sample_pandas jane_twice =
     [\<lparr>order_id = Some ''2'', customer_name = Some ''Jane Doe'', city = Some ''London'',
        product = Some ''Gadget'', price = Some 5, quantity = Some 1,
        order_date = Some (2023, 6, 14), quantity_was_missing = True, revenue = Some 5\<rparr>,
      \<lparr>order_id = Some ''2'', customer_name = Some ''Jane Doe'', city = Some ''London'',
        product = Some ''Gadget'', price = Some 5, quantity = Some 1,
        order_date = Some (2023, 6, 14), quantity_was_missing = False, revenue = Some 5\<rparr>]"
  by code_simp

lemma jane_twice_raw:
  "length jane_twice = 2"
  "quantity (jane_twice ! 0) = None"
  "quantity (jane_twice ! 1) = Some ''1''"
  by code_simp+



section \<open>The properties\<close>

text \<open>
  C1. For every input frame, every row of the exported frame has a price, a quantity
  and an order date that are not missing.
\<close>

theorem clean_frame_critical_present:
  "\<forall>r\<in>set (clean_frame L df). price r \<noteq> None \<and> quantity r \<noteq> None \<and> order_date r \<noteq> None"
  by (auto simp: set_clean_frame with_revenue_sel)

theorem clean_frame_critical_present_witness:
  "length (clean_frame sample_pandas orders) = 2 \<and>
   list_all (\<lambda>r. price r \<noteq> None \<and> quantity r \<noteq> None \<and> order_date r \<noteq> None)
     (clean_frame sample_pandas orders)"
  using clean_frame_critical_present [of sample_pandas orders]
  by (simp add: list_all_iff orders_clean)

text \<open>
  C2. An exported row comes from the input row \<open>i\<close> when it is the prepared row \<open>i\<close> with
  its revenue. Every exported row comes from some input row; for each input row it
  comes from, \<open>quantity_was_missing\<close> is true if and only if the raw quantity of that
  row was absent or was text that \<open>to_numeric\<close> could not turn into a number; and
  whenever the flag is true the quantity is 1.
\<close>

theorem quantity_was_missing_iff_raw_unparsed:
  "\<forall>r\<in>set (clean_frame L df).
     (\<exists>i<length df. r = with_revenue L (prepared L df ! i)) \<and>
     (\<forall>i<length df. r = with_revenue L (prepared L df ! i) \<longrightarrow>
        (quantity_was_missing r \<longleftrightarrow>
           (quantity (df ! i) = None \<or> (\<exists>s. quantity (df ! i) = Some s \<and> to_numeric L s = None)))) \<and>
     (quantity_was_missing r \<longrightarrow> quantity r = Some (float_one L))"
proof
  fix r assume r: "r \<in> set (clean_frame L df)"
  then obtain p where p: "p \<in> set (prepared L df)" and rp: "r = with_revenue L p"
    by (auto simp: set_clean_frame)
  from p obtain i where i: "i < length df" and pi: "p = prepared L df ! i"
    by (auto simp: in_set_conv_nth length_prepared)
  have origin: "\<exists>i<length df. r = with_revenue L (prepared L df ! i)"
    using i pi rp by blast
  have flag: "\<forall>i<length df. r = with_revenue L (prepared L df ! i) \<longrightarrow>
        (quantity_was_missing r \<longleftrightarrow>
           (quantity (df ! i) = None \<or> (\<exists>s. quantity (df ! i) = Some s \<and> to_numeric L s = None)))"
  proof (intro allI impI)
    fix j assume j: "j < length df" and rj: "r = with_revenue L (prepared L df ! j)"
    have "quantity_was_missing r = isna (coerce_cell (to_numeric L) (quantity (df ! j)))"
      by (simp add: rj with_revenue_sel prepared_nth [OF j])
    then show "quantity_was_missing r \<longleftrightarrow>
           (quantity (df ! j) = None \<or> (\<exists>s. quantity (df ! j) = Some s \<and> to_numeric L s = None))"
      by (simp add: isna_def coerce_cell_None)
  qed
  have one: "quantity_was_missing r \<longrightarrow> quantity r = Some (float_one L)"
    using prepared_quantity [OF p] by (simp add: rp with_revenue_sel)
  from origin flag one
  show "(\<exists>i<length df. r = with_revenue L (prepared L df ! i)) \<and>
     (\<forall>i<length df. r = with_revenue L (prepared L df ! i) \<longrightarrow>
        (quantity_was_missing r \<longleftrightarrow>
           (quantity (df ! i) = None \<or> (\<exists>s. quantity (df ! i) = Some s \<and> to_numeric L s = None)))) \<and>
     (quantity_was_missing r \<longrightarrow> quantity r = Some (float_one L))"
    by blast
qed

theorem quantity_was_missing_iff_raw_unparsed_witness:
  "clean_frame sample_pandas jane_twice ! 0 = with_revenue sample_pandas (prepared sample_pandas jane_twice ! 0) \<and>
   quantity_was_missing (clean_frame sample_pandas jane_twice ! 0) \<and>
   quantity (jane_twice ! 0) = None \<and>
   quantity (clean_frame sample_pandas jane_twice ! 0) = Some 1 \<and>
   clean_frame sample_pandas jane_twice ! 1 = with_revenue sample_pandas (prepared sample_pandas jane_twice ! 1) \<and>
   \<not> quantity_was_missing (clean_frame sample_pandas jane_twice ! 1) \<and>
   quantity (jane_twice ! 1) = Some ''1'' \<and> to_numeric sample_pandas ''1'' = Some 1"
proof -
  note q = jane_twice_raw(2,3)
  have p: "to_numeric sample_pandas ''1'' = Some 1" by code_simp
  have o0: "clean_frame sample_pandas jane_twice ! 0 = with_revenue sample_pandas (prepared sample_pandas jane_twice ! 0)"
    and o1: "clean_frame sample_pandas jane_twice ! 1 = with_revenue sample_pandas (prepared sample_pandas jane_twice ! 1)"
    unfolding jane_twice_clean jane_twice_prepared
    by (simp_all add: with_revenue_def times_col_def sample_pandas_def)
  have m0: "clean_frame sample_pandas jane_twice ! 0 \<in> set (clean_frame sample_pandas jane_twice)"
    and m1: "clean_frame sample_pandas jane_twice ! 1 \<in> set (clean_frame sample_pandas jane_twice)"
    by (simp_all add: jane_twice_clean)
  have len: "0 < length jane_twice" "1 < length jane_twice"
    by (simp_all add: jane_twice_raw(1))
  from quantity_was_missing_iff_raw_unparsed [of sample_pandas jane_twice] m0 o0 len(1) q(1)
  have f0: "quantity_was_missing (clean_frame sample_pandas jane_twice ! 0)" by blast
  from quantity_was_missing_iff_raw_unparsed [of sample_pandas jane_twice] m0 f0
  have v0: "quantity (clean_frame sample_pandas jane_twice ! 0) = Some (float_one sample_pandas)" by blast
  from quantity_was_missing_iff_raw_unparsed [of sample_pandas jane_twice] m1 o1 len(2) q(2) p
  have f1: "\<not> quantity_was_missing (clean_frame sample_pandas jane_twice ! 1)" by auto
  from o0 o1 f0 f1 v0 q p show ?thesis by (simp add: sample_pandas_def)
qed



text \<open>
  C4. The deduplicated frame and the exported frame have no two equal rows, missing
  cells counting as equal to each other. \<open>drop_duplicates\<close> keeps exactly the rows that
  have no equal row before them, so of each group of equal rows the first; the rows
  kept stand in their original order, and every row of the frame has an equal row
  among them.
\<close>

theorem drop_duplicates_keeps_first:
  "distinct (clean_frame L df) \<and> distinct (deduplicated L df) \<and>
   drop_duplicates xs = nths xs {i. i < length xs \<and> xs ! i \<notin> set (take i xs)} \<and>
   subseq (drop_duplicates xs) xs \<and> set (drop_duplicates xs) = set xs"
proof -
  have "drop_duplicates xs = nths xs {i. i < length xs \<and> xs ! i \<notin> set (take i xs)}"
    using drop_duplicates_from_nths [of "[]" xs] by (simp add: drop_duplicates_def)
  moreover have "subseq (drop_duplicates xs) xs"
    by (simp add: drop_duplicates_def subseq_drop_duplicates_from)
  moreover have "set (drop_duplicates xs) = set xs"
    by (simp add: drop_duplicates_def set_drop_duplicates_from)
  moreover have "distinct (deduplicated L df)"
    by (simp add: deduplicated_def drop_duplicates_def distinct_drop_duplicates_from)
  ultimately show ?thesis
    using distinct_clean_frame [of L df] by blast
qed

theorem drop_duplicates_keeps_first_witness:
  "drop_duplicates [3, 1, 3, 2, 1 :: nat] = [3, 1, 2] \<and>
   subseq [3, 1, 2] [3, 1, 3, 2, 1 :: nat] \<and>
   length (prepared sample_pandas orders) = 4 \<and>
   length (deduplicated sample_pandas orders) = 3 \<and>
   distinct (deduplicated sample_pandas orders) \<and>
   distinct (clean_frame sample_pandas orders)"
proof -
  have e: "drop_duplicates [3, 1, 3, 2, 1 :: nat] = [3, 1, 2]"
    by (simp add: drop_duplicates_def)
  have l: "length (prepared sample_pandas orders) = 4"
    by (simp add: length_prepared orders_def)
  from drop_duplicates_keeps_first [of sample_pandas orders "[3, 1, 3, 2, 1 :: nat]"]
  have "distinct (clean_frame sample_pandas orders)" "distinct (deduplicated sample_pandas orders)"
    "subseq (drop_duplicates [3, 1, 3, 2, 1 :: nat]) [3, 1, 3, 2, 1]"
    by blast+
  with e l show ?thesis by (simp add: orders_deduplicated)
qed







text \<open>
  C8. If the input file does not exist, the run ends with an error and leaves the
  output file as it was. The error names the input path, unless the path of the output
  directory is taken by a file, which \<open>mkdir\<close> reports first. The result does not
  depend on the library parameters: nothing is read, parsed or computed.
\<close>

theorem main_input_file_absent:
  assumes "in_file w = None"
  shows "(\<exists>e. snd (main L w) = Inl e) \<and>
         out_file (fst (main L w)) = out_file w \<and>
         in_file (fst (main L w)) = None \<and>
         (out_dir w \<noteq> RegularFile \<longrightarrow>
            snd (main L w) =
              Inl (FileNotFoundError (''Input file not found: '' @ root w @ ''/data/raw_sales_data.csv''))) \<and>
         main L' w = main L w"
  using assms by (cases "out_dir w") (simp_all add: main_def mkdir_def Let_def)

theorem main_input_file_absent_witness:
  "snd (main sample_pandas no_input) =
     Inl (FileNotFoundError ''Input file not found: /repo/data/raw_sales_data.csv'') \<and>
   out_file (fst (main sample_pandas no_input)) = None"
proof -
  have a: "in_file no_input = None" and d: "out_dir no_input \<noteq> RegularFile"
    and r: "root no_input = ''/repo''" and o: "out_file no_input = None"
    by (simp_all add: no_input_def)
  from main_input_file_absent [OF a, of sample_pandas sample_pandas] d r o
  show ?thesis by simp
qed

text \<open>
  C9. In the frame that reaches the critical-field filter every row has a quantity:
  step 4 stored 1 wherever it was missing. So the filter keeps exactly the rows whose
  price and order date are present, and a row is removed if and only if its price or
  its order date is missing.
\<close>

theorem dropna_removes_for_price_or_date_only:
  "(\<forall>r\<in>set (deduplicated L df). quantity r \<noteq> None) \<and>
   dropna (deduplicated L df) =
     filter (\<lambda>r. price r \<noteq> None \<and> order_date r \<noteq> None) (deduplicated L df) \<and>
   (\<forall>r\<in>set (deduplicated L df).
      r \<notin> set (dropna (deduplicated L df)) \<longleftrightarrow> (price r = None \<or> order_date r = None))"
proof -
  have q: "\<forall>r\<in>set (deduplicated L df). quantity r \<noteq> None"
    using prepared_quantity by (auto simp: set_deduplicated)
  have f: "dropna (deduplicated L df) =
     filter (\<lambda>r. price r \<noteq> None \<and> order_date r \<noteq> None) (deduplicated L df)"
    unfolding dropna_def using q by (intro filter_cong) (auto simp: isna_def)
  have "\<forall>r\<in>set (deduplicated L df).
      r \<notin> set (dropna (deduplicated L df)) \<longleftrightarrow> (price r = None \<or> order_date r = None)"
    unfolding f by auto
  with q f show ?thesis by blast
qed

theorem dropna_removes_for_price_or_date_only_witness:
  "map quantity (deduplicated sample_pandas orders) = [Some 2, Some 1, Some 3] \<and>
   map price (deduplicated sample_pandas orders) = [Some 9, Some 5, None] \<and>
   map order_id (dropna (deduplicated sample_pandas orders)) = [Some ''1'', Some ''2'']"
proof -
  from dropna_removes_for_price_or_date_only [of sample_pandas orders]
  have "dropna (deduplicated sample_pandas orders) =
     filter (\<lambda>r. price r \<noteq> None \<and> order_date r \<noteq> None) (deduplicated sample_pandas orders)"
    by blast
  then show ?thesis unfolding orders_deduplicated by simp
qed

text \<open>
  C10. Let two input rows agree on all seven columns after normalization, coercion and
  the substitution of 1, the raw quantity of the first being missing or unparseable
  and that of the second parsing to 1. Then their prepared rows differ, in
  \<open>quantity_was_missing\<close>, which is computed before \<open>drop_duplicates\<close> and is part of the
  rows it compares; both rows are in the deduplicated frame; and when their price and
  order date are present, both are exported, as two different rows.
\<close>

theorem flag_keeps_substituted_row_apart:
  assumes "i < length df" and "j < length df"
    and "row.truncate (prepared L df ! i) = row.truncate (prepared L df ! j)"
    and "coerce_cell (to_numeric L) (quantity (df ! i)) = None"
    and "coerce_cell (to_numeric L) (quantity (df ! j)) = Some (float_one L)"
  shows "prepared L df ! i \<noteq> prepared L df ! j \<and>
         quantity_was_missing (prepared L df ! i) \<and>
         \<not> quantity_was_missing (prepared L df ! j) \<and>
         prepared L df ! i \<in> set (deduplicated L df) \<and>
         prepared L df ! j \<in> set (deduplicated L df) \<and>
         (price (prepared L df ! i) \<noteq> None \<and> order_date (prepared L df ! i) \<noteq> None \<longrightarrow>
            with_revenue L (prepared L df ! i) \<in> set (clean_frame L df) \<and>
            with_revenue L (prepared L df ! j) \<in> set (clean_frame L df) \<and>
            with_revenue L (prepared L df ! i) \<noteq> with_revenue L (prepared L df ! j))"
proof -
  let ?a = "prepared L df ! i" and ?b = "prepared L df ! j"
  have fi: "quantity_was_missing ?a"
    using assms(1,4) by (simp add: prepared_nth isna_def)
  have fj: "\<not> quantity_was_missing ?b"
    using assms(2,5) by (simp add: prepared_nth isna_def)
  have mem: "?a \<in> set (prepared L df)" "?b \<in> set (prepared L df)"
    using assms(1,2) by (simp_all add: length_prepared)
  have cols: "price ?b = price ?a" "order_date ?b = order_date ?a"
    using assms(3) by (simp_all add: row.truncate_def)
  have q: "quantity ?a \<noteq> None" "quantity ?b \<noteq> None"
    using prepared_quantity mem by blast+
  have exported: "with_revenue L ?a \<in> set (clean_frame L df) \<and>
      with_revenue L ?b \<in> set (clean_frame L df) \<and>
      with_revenue L ?a \<noteq> with_revenue L ?b"
    if present: "price ?a \<noteq> None \<and> order_date ?a \<noteq> None"
  proof -
    have "with_revenue L ?a \<in> set (clean_frame L df)"
      using mem(1) q(1) present by (auto simp: set_clean_frame)
    moreover have "with_revenue L ?b \<in> set (clean_frame L df)"
      using mem(2) q(2) present cols by (auto simp: set_clean_frame)
    moreover have "with_revenue L ?a \<noteq> with_revenue L ?b"
      using fi fj by (auto simp: with_revenue_def)
    ultimately show ?thesis by blast
  qed
  from fi fj mem exported show ?thesis by (auto simp: set_deduplicated)
qed

theorem flag_keeps_substituted_row_apart_witness:
  "row.truncate (prepared sample_pandas jane_twice ! 0) =
     row.truncate (prepared sample_pandas jane_twice ! 1) \<and>
   prepared sample_pandas jane_twice ! 0 \<noteq> prepared sample_pandas jane_twice ! 1 \<and>
   prepared sample_pandas jane_twice ! 0 \<in> set (deduplicated sample_pandas jane_twice) \<and>
   prepared sample_pandas jane_twice ! 1 \<in> set (deduplicated sample_pandas jane_twice) \<and>
   with_revenue sample_pandas (prepared sample_pandas jane_twice ! 0)
     \<in> set (clean_frame sample_pandas jane_twice) \<and>
   with_revenue sample_pandas (prepared sample_pandas jane_twice ! 1)
     \<in> set (clean_frame sample_pandas jane_twice) \<and>
   length (clean_frame sample_pandas jane_twice) = 2"
proof -
  have len: "0 < length jane_twice" "1 < length jane_twice"
    by (simp_all add: jane_twice_raw(1))
  have same: "row.truncate (prepared sample_pandas jane_twice ! 0) =
     row.truncate (prepared sample_pandas jane_twice ! 1)"
    unfolding jane_twice_prepared by (simp add: row.truncate_def)
  have qi: "coerce_cell (to_numeric sample_pandas) (quantity (jane_twice ! 0)) = None"
    by (simp add: jane_twice_raw(2) coerce_cell_def)
  have "to_numeric sample_pandas ''1'' = Some (float_one sample_pandas)" by code_simp
  with jane_twice_raw(3)
  have qj: "coerce_cell (to_numeric sample_pandas) (quantity (jane_twice ! 1)) =
      Some (float_one sample_pandas)"
    by (simp add: coerce_cell_def)
  have present: "price (prepared sample_pandas jane_twice ! 0) \<noteq> None \<and>
      order_date (prepared sample_pandas jane_twice ! 0) \<noteq> None"
    unfolding jane_twice_prepared by simp
  have l: "length (clean_frame sample_pandas jane_twice) = 2"
    unfolding jane_twice_clean by simp
  from flag_keeps_substituted_row_apart [OF len same qi qj] same present l
  show ?thesis by blast
qed

end
